theory Spec2Isabelle
  imports Main
begin

section \<open>JavaScript values\<close>

text \<open>
  The values the server passes around: request arguments, token payloads, identifiers.
  Identifiers and role levels are integers, so the number type of the model holds the
  integer-valued numbers and \<open>NaN\<close> (what \<open>parseInt\<close> returns on a string with no
  leading digits). An integer is held exactly, as a double holds it up to \<open>2^53\<close>.
  Strings are sequences of 8-bit characters. An object is the list of its own
  properties.
\<close>

datatype jsnum = Fin int | NaN

datatype jsval =
    JUndefined
  | JNull
  | JBool bool
  | JNum jsnum
  | JStr string
  | JArr "jsval list"
  | JObj "(string \<times> jsval) list"

text \<open>A thrown value: \<open>name\<close>, the optional \<open>code\<close> property, \<open>message\<close>.\<close>

datatype js_error = JsError (errName: string) (errCode: "string option") (errMessage: string)

text \<open>\<open>src/errors.js\<close>: \<open>CodedError(code, message)\<close> sets \<open>name\<close>, \<open>code\<close> and \<open>message\<close>.\<close>

definition CodedError :: "string \<Rightarrow> string \<Rightarrow> js_error" where
  "CodedError c m = JsError ''CodedError'' (Some c) m"

definition Error :: "string \<Rightarrow> js_error" where
  "Error m = JsError ''Error'' None m"

definition TypeError :: "string \<Rightarrow> js_error" where
  "TypeError m = JsError ''TypeError'' None m"

text \<open>Truthiness, as \<open>if (v)\<close> and \<open>v ? a : b\<close> test it.\<close>

fun truthy :: "jsval \<Rightarrow> bool" where
  "truthy JUndefined = False"
| "truthy JNull = False"
| "truthy (JBool b) = b"
| "truthy (JNum (Fin n)) = (n \<noteq> 0)"
| "truthy (JNum NaN) = False"
| "truthy (JStr s) = (s \<noteq> [])"
| "truthy (JArr xs) = True"
| "truthy (JObj kvs) = True"

text \<open>
  Reading the property \<open>k\<close> of a value (\<open>v.id\<close>, \<open>v.allExist\<close>): a TypeError on
  \<open>undefined\<close> and \<open>null\<close>, the stored value on an object that has the property,
  \<open>undefined\<close> otherwise (the keys read by the server are no built-in property of a
  string, a number, a boolean or an array).
\<close>

fun getProp :: "jsval \<Rightarrow> string \<Rightarrow> js_error + jsval" where
  "getProp JUndefined k = Inl (TypeError ''Cannot read property of undefined'')"
| "getProp JNull k = Inl (TypeError ''Cannot read property of null'')"
| "getProp (JObj kvs) k = Inr (case map_of kvs k of None \<Rightarrow> JUndefined | Some v \<Rightarrow> v)"
| "getProp v k = Inr JUndefined"

text \<open>
  \<open>v.hasOwnProperty && v.hasOwnProperty(k)\<close>: a TypeError on \<open>undefined\<close> and \<open>null\<close>;
  every other value has the method, and only an object can own the key.
\<close>

fun hasOwnProperty :: "jsval \<Rightarrow> string \<Rightarrow> js_error + bool" where
  "hasOwnProperty JUndefined k = Inl (TypeError ''Cannot read property of undefined'')"
| "hasOwnProperty JNull k = Inl (TypeError ''Cannot read property of null'')"
| "hasOwnProperty (JObj kvs) k = Inr (map_of kvs k \<noteq> None)"
| "hasOwnProperty v k = Inr False"

text \<open>\<open>v === n\<close> for a number \<open>n\<close>: same type, same value, and \<open>NaN\<close> equals nothing.\<close>

fun strictEqNum :: "jsval \<Rightarrow> jsnum \<Rightarrow> bool" where
  "strictEqNum (JNum (Fin a)) (Fin b) = (a = b)"
| "strictEqNum v n = False"

subsection \<open>Strings: splitting, digits, \<open>parseInt\<close>\<close>

text \<open>\<open>s.split(sep)\<close> for a one-character separator, generalised to a class of separators.\<close>

fun splitWhen :: "(char \<Rightarrow> bool) \<Rightarrow> string \<Rightarrow> string list" where
  "splitWhen p [] = [[]]"
| "splitWhen p (c # cs) =
     (if p c then [] # splitWhen p cs
      else (case splitWhen p cs of [] \<Rightarrow> [[c]] | l # ls \<Rightarrow> (c # l) # ls))"

definition isDigit :: "char \<Rightarrow> bool" where
  "isDigit c = (c \<in> set ''0123456789'')"

definition isLineTerminator :: "char \<Rightarrow> bool" where
  "isLineTerminator c = (c = CHR 0x0A \<or> c = CHR 0x0D)"

definition isWhiteSpace :: "char \<Rightarrow> bool" where
  "isWhiteSpace c = (c \<in> set [CHR 0x09, CHR 0x0A, CHR 0x0B, CHR 0x0C, CHR 0x0D, CHR 0x20, CHR 0xA0])"

definition digitValue :: "char \<Rightarrow> int" where
  "digitValue c = int (of_char c) - 48"

text \<open>The value of a digit string read in radix 10, most significant digit first.\<close>

fun decimalValue :: "int \<Rightarrow> string \<Rightarrow> int" where
  "decimalValue acc [] = acc"
| "decimalValue acc (c # cs) = decimalValue (10 * acc + digitValue c) cs"

text \<open>
  \<open>parseInt(s, 10)\<close> on a string: leading white space is skipped, one sign is read, and
  the longest run of digits that follows is the value, read exactly; no digit gives
  \<open>NaN\<close>. What comes after the digits is ignored.
\<close>

definition parseIntStr :: "string \<Rightarrow> jsnum" where
  "parseIntStr s =
     (let t = dropWhile isWhiteSpace s;
          neg = (case t of [] \<Rightarrow> False | c # _ \<Rightarrow> c = CHR ''-'');
          u = (case t of [] \<Rightarrow> [] | c # cs \<Rightarrow> if c = CHR ''-'' \<or> c = CHR ''+'' then cs else t);
          ds = takeWhile isDigit u
      in if ds = [] then NaN
         else Fin (if neg then - decimalValue 0 ds else decimalValue 0 ds))"

text \<open>
  \<open>parseInt(v, 10)\<close> on any value: the value is converted to a string first. An integer
  prints as its digits; \<open>undefined\<close>, \<open>null\<close>, booleans and objects print as words with
  no leading digit; an array prints its elements separated by commas, so only its
  first element can contribute (\<open>null\<close> and \<open>undefined\<close> elements print as nothing).
\<close>

fun parseInt10 :: "jsval \<Rightarrow> jsnum" where
  "parseInt10 (JStr s) = parseIntStr s"
| "parseInt10 (JNum n) = n"
| "parseInt10 (JArr (x # xs)) = parseInt10 x"
| "parseInt10 v = NaN"

section \<open>Roles (\<open>roles.js\<close>)\<close>

definition Role_ADMIN :: int where "Role_ADMIN = 0"
definition Role_USER :: int where "Role_USER = 1"
definition Role_EVERYONE :: int where "Role_EVERYONE = 99"

section \<open>The API module (\<open>api.js\<close>)\<close>

text \<open>The response envelope: \<open>responseCode\<close>, \<open>responseStatus\<close>, \<open>response\<close>.\<close>

record envelope =
  responseCode :: int
  responseStatus :: string
  response :: jsval

definition code_OK :: int where "code_OK = 200"
definition code_BadRequest :: int where "code_BadRequest = 400"
definition code_Unauthorised :: int where "code_Unauthorised = 401"
definition code_Forbidden :: int where "code_Forbidden = 403"
definition code_NotFound :: int where "code_NotFound = 404"
definition code_PayloadTooLarge :: int where "code_PayloadTooLarge = 413"
definition code_InternalServerError :: int where "code_InternalServerError = 500"

definition formatResult :: "int \<Rightarrow> jsval \<Rightarrow> envelope" where
  "formatResult c r =
     \<lparr> responseCode = c,
       responseStatus =
         (if c = code_OK then ''OK''
          else if c = code_BadRequest then ''Bad Request''
          else if c = code_Unauthorised then ''Unauthorised''
          else if c = code_Forbidden then ''Forbidden''
          else if c = code_NotFound then ''Not Found''
          else if c = code_PayloadTooLarge then ''Payload Too Large''
          else if c = code_InternalServerError then ''Internal Server Error''
          else ''Unknown''),
       response = r \<rparr>"

text \<open>The response helpers take \<open>msg = {}\<close>: the default stands in for \<open>undefined\<close>.\<close>

definition defaultMsg :: "jsval \<Rightarrow> jsval" where
  "defaultMsg msg = (if msg = JUndefined then JObj [] else msg)"

definition responseBadRequest :: "jsval \<Rightarrow> envelope" where
  "responseBadRequest msg = formatResult code_BadRequest (defaultMsg msg)"

definition responseUnauthorised :: "jsval \<Rightarrow> envelope" where
  "responseUnauthorised msg = formatResult code_Unauthorised (defaultMsg msg)"

definition responseForbidden :: "jsval \<Rightarrow> envelope" where
  "responseForbidden msg = formatResult code_Forbidden (defaultMsg msg)"

definition responseNotFound :: "jsval \<Rightarrow> envelope" where
  "responseNotFound msg = formatResult code_NotFound (defaultMsg msg)"

definition responsePayloadTooLarge :: "jsval \<Rightarrow> envelope" where
  "responsePayloadTooLarge msg = formatResult code_PayloadTooLarge (defaultMsg msg)"

definition responseInternalServerError :: "jsval \<Rightarrow> envelope" where
  "responseInternalServerError msg = formatResult code_InternalServerError (defaultMsg msg)"

text \<open>
  The functions the server can call as Actions: the exports of \<open>api.js\<close> and
  \<open>runAdminTests\<close> of \<open>tests.js\<close>.
\<close>

datatype action =
    deactivateUser | activateUser | getUserAccountStatus | getUserRole
  | resetTestDB | getHash | getToken | verifyToken | getUsers
  | getUser | getUserFavourites | addUserFavourite | removeUserFavourite
  | getVenue | getVenues | loginUser | registerUser
  | actResponseBadRequest | actResponseUnauthorised | actResponseForbidden
  | actResponseNotFound | actResponsePayloadTooLarge | actResponseInternalServerError
  | runAdminTests

text \<open>
  The metadata attached to an Action as properties of the function: \<open>minRole\<close>
  (\<open>None\<close> is \<open>undefined\<close>) and \<open>hasOwner\<close> (any value; \<open>JUndefined\<close> when never set).
\<close>

record action_meta =
  minRole :: "int option"
  hasOwner :: jsval

type_synonym registry = "action \<Rightarrow> action_meta"

definition unregistered :: action_meta where
  "unregistered = \<lparr> minRole = None, hasOwner = JUndefined \<rparr>"

text \<open>
  The \<open>permissions\<close> arrays of the two \<open>initialise\<close> functions, in the order of the
  source (\<open>api.js\<close>, then \<open>tests.js\<close>). \<open>responseUnauthorised\<close> is in neither.
\<close>

definition permissions :: "(action \<times> int \<times> bool) list" where
  "permissions =
    [ (deactivateUser, Role_ADMIN, True),
      (activateUser, Role_ADMIN, True),
      (getUserAccountStatus, Role_ADMIN, True),
      (getUserRole, Role_ADMIN, True),
      (resetTestDB, Role_ADMIN, False),
      (getHash, Role_ADMIN, False),
      (getToken, Role_ADMIN, False),
      (verifyToken, Role_ADMIN, False),
      (getUsers, Role_ADMIN, False),
      (getUser, Role_USER, True),
      (getUserFavourites, Role_USER, True),
      (addUserFavourite, Role_USER, True),
      (removeUserFavourite, Role_USER, True),
      (getVenue, Role_EVERYONE, False),
      (getVenues, Role_EVERYONE, False),
      (loginUser, Role_EVERYONE, False),
      (registerUser, Role_EVERYONE, False),
      (actResponseBadRequest, Role_EVERYONE, False),
      (actResponseForbidden, Role_EVERYONE, False),
      (actResponseNotFound, Role_EVERYONE, False),
      (actResponsePayloadTooLarge, Role_EVERYONE, False),
      (actResponseInternalServerError, Role_EVERYONE, False),
      (runAdminTests, Role_ADMIN, False) ]"

text \<open>
  \<open>for (const item of permissions) { item.action.minRole = ...; item.action.hasOwner = ... }\<close>:
  each item overwrites the two properties of its function.
\<close>

fun initialise :: "(action \<times> int \<times> bool) list \<Rightarrow> registry \<Rightarrow> registry" where
  "initialise [] reg = reg"
| "initialise ((a, r, h) # items) reg =
     initialise items (reg (a := \<lparr> minRole = Some r, hasOwner = JBool h \<rparr>))"

definition registered :: registry where
  "registered = initialise permissions (\<lambda>a. unregistered)"

section \<open>The security module (\<open>auth.js\<close>)\<close>

text \<open>
  \<open>jsonwebtoken\<close> is a library outside the repository, so its two primitives are
  parameters: \<open>jwtSign payload secret expiresIn now\<close> and \<open>jwtVerify token secret now\<close>,
  each returning a value or throwing, at the clock reading \<open>now\<close>; \<open>jwtExpiresAt\<close> is
  the instant at which the library lets a token signed at \<open>now\<close> with \<open>expiresIn\<close> lapse.
\<close>

record jwt_lib =
  jwtSign :: "jsval \<Rightarrow> string \<Rightarrow> jsval \<Rightarrow> nat \<Rightarrow> js_error + string"
  jwtVerify :: "string \<Rightarrow> string \<Rightarrow> nat \<Rightarrow> js_error + jsval"
  jwtExpiresAt :: "jsval \<Rightarrow> nat \<Rightarrow> nat"

text \<open>\<open>config.js\<close>: both values come from the process environment or a default.\<close>

record config =
  NODE_ENV :: string
  KEBAPI_AUTH_SECRET :: string
  KEBAPI_AUTH_TOKEN_EXPIRY_MS :: jsval
  KEBAPI_SERVER_POST_MAX_SIZE :: nat

text \<open>\<open>auth.getToken(id)\<close>: signs \<open>{ id: id }\<close>; an error of the primitive is rethrown.\<close>

definition auth_getToken :: "config \<Rightarrow> jwt_lib \<Rightarrow> nat \<Rightarrow> jsval \<Rightarrow> js_error + string" where
  "auth_getToken cfg lib now i =
     jwtSign lib (JObj [(''id'', i)]) (KEBAPI_AUTH_SECRET cfg) (KEBAPI_AUTH_TOKEN_EXPIRY_MS cfg) now"

text \<open>
  The object \<open>auth.verifyToken\<close> returns: \<open>verified\<close>, and the three properties that
  are spread in only when their value is truthy.
\<close>

record verify_result =
  verified :: bool
  payload :: "jsval option"
  rejectReason :: "string option"
  rejectErrorType :: "string option"

definition spreadVal :: "jsval \<Rightarrow> jsval option" where
  "spreadVal v = (if truthy v then Some v else None)"

definition spreadStr :: "string \<Rightarrow> string option" where
  "spreadStr s = (if s \<noteq> [] then Some s else None)"

text \<open>
  \<open>auth.verifyToken(token)\<close>: an error of the primitive whose name is neither
  \<open>JsonWebTokenError\<close> nor \<open>TokenExpiredError\<close> is rethrown; the two named ones are
  turned into a result with \<open>verified = false\<close>.
\<close>

definition auth_verifyToken :: "config \<Rightarrow> jwt_lib \<Rightarrow> nat \<Rightarrow> string \<Rightarrow> js_error + verify_result" where
  "auth_verifyToken cfg lib now token =
     (case jwtVerify lib token (KEBAPI_AUTH_SECRET cfg) now of
        Inr p \<Rightarrow>
          Inr \<lparr> verified = True, payload = spreadVal p,
                rejectReason = None, rejectErrorType = None \<rparr>
      | Inl err \<Rightarrow>
          if errName err \<notin> set [''JsonWebTokenError'', ''TokenExpiredError'']
          then Inl err
          else Inr \<lparr> verified = False, payload = None,
                     rejectReason = spreadStr (errMessage err),
                     rejectErrorType = spreadStr (errName err) \<rparr>)"

section \<open>The server (\<open>server.js\<close>)\<close>

subsection \<open>Requests and collaborators\<close>

text \<open>
  A request as the handler reads it: the method, the path and the parsed query of
  \<open>url.parse(req.url, true)\<close>, the headers (names in lower case, as Node gives them)
  and the chunks of the body.
\<close>

record request =
  reqMethod :: string
  reqPathname :: string
  reqQuery :: jsval
  reqHeaders :: "(string \<times> string) list"
  reqBody :: "string list"

text \<open>A row of \<open>dal.getUserRole\<close>: \<open>{ id, role }\<close>.\<close>

record role_row =
  role_id :: int
  role_name :: string

text \<open>
  What the handler calls outside \<open>server.js\<close>, \<open>api.js\<close>'s response helpers and
  \<open>auth.js\<close>: the configuration, the token library and the clock, the data layer,
  the body parsers, and the Actions that query the database. Each call returns a
  value or throws.
\<close>

record world =
  cfg :: config
  lib :: jwt_lib
  clock :: nat
  dal_checkDBExists :: "js_error + jsval"
  dal_setTargetDB :: "js_error + jsval"
  dal_checkTablesExist :: "js_error + jsval"
  dal_getUserRole :: "jsval \<Rightarrow> js_error + role_row list"
  qs_parse :: "string \<Rightarrow> jsval"
  JSON_parse :: "string \<Rightarrow> js_error + jsval"
  handlers :: "action \<Rightarrow> jsval list \<Rightarrow> js_error + envelope"

text \<open>\<open>helper-env.js\<close>.\<close>

definition isDev :: "world \<Rightarrow> bool" where
  "isDev w = (NODE_ENV (cfg w) = ''development'')"

subsection \<open>\<open>isIdFormat\<close>\<close>

text \<open>
  \<open>value.match(/^[0-9]*$/gm)\<close> is an array (truthy) when the pattern matches somewhere
  and \<open>null\<close> otherwise. With the \<open>m\<close> flag \<open>^\<close> and \<open>$\<close> match at the ends of every
  line, so the pattern matches exactly when some line of the string, the empty one
  included, holds digits only.
\<close>

definition matchesIdRegex :: "string \<Rightarrow> bool" where
  "matchesIdRegex s = list_ex (list_all isDigit) (splitWhen isLineTerminator s)"

fun isIdFormat :: "jsval \<Rightarrow> bool" where
  "isIdFormat (JNum n) = True"
| "isIdFormat (JStr s) = matchesIdRegex s"
| "isIdFormat v = False"

subsection \<open>\<open>route\<close>\<close>

record act =
  action :: action
  args :: jsval

text \<open>\<open>pathSegments[i]\<close>: \<open>undefined\<close> past the end.\<close>

definition segment :: "string list \<Rightarrow> nat \<Rightarrow> jsval" where
  "segment ps i = (if i < length ps then JStr (ps ! i) else JUndefined)"

text \<open>The first \<open>switch\<close>: GET routes of the development environment.\<close>

definition switchDevGet :: "jsval \<Rightarrow> string list \<Rightarrow> act option" where
  "switchDevGet key ps =
     (if key = JStr ''gettoken'' then
        (if isIdFormat (segment ps 1)
         then Some \<lparr> action = getToken, args = JObj [(''id'', segment ps 1)] \<rparr>
         else None)
      else if key = JStr ''verifytoken'' then
        (if truthy (segment ps 1)
         then Some \<lparr> action = verifyToken, args = JObj [(''token'', segment ps 1)] \<rparr>
         else None)
      else if key = JStr ''gethash'' then
        (if truthy (segment ps 1)
         then Some \<lparr> action = getHash, args = JObj [(''value'', segment ps 1)] \<rparr>
         else None)
      else if key = JStr ''resettestdb'' then
        Some \<lparr> action = resetTestDB, args = JObj [] \<rparr>
      else if key = JStr ''tests'' then
        (if segment ps 1 = JStr ''admin''
         then Some \<lparr> action = runAdminTests, args = JObj [] \<rparr>
         else None)
      else None)"

text \<open>The second \<open>switch\<close>: GET routes.\<close>

definition switchGet :: "jsval \<Rightarrow> string list \<Rightarrow> jsval \<Rightarrow> act option" where
  "switchGet key ps queryStringParameters =
     (if key = JStr ''venues'' then
        (if isIdFormat (segment ps 1)
         then Some \<lparr> action = getVenue, args = JObj [(''id'', segment ps 1)] \<rparr>
         else Some \<lparr> action = getVenues, args = queryStringParameters \<rparr>)
      else if key = JStr ''users'' then
        (if isIdFormat (segment ps 1) then
           (if segment ps 2 = JStr ''favourites''
            then Some \<lparr> action = getUserFavourites, args = JObj [(''id'', segment ps 1)] \<rparr>
            else if segment ps 2 = JStr ''role''
            then Some \<lparr> action = getUserRole, args = JObj [(''id'', segment ps 1)] \<rparr>
            else if segment ps 2 = JStr ''status''
            then Some \<lparr> action = getUserAccountStatus, args = JObj [(''id'', segment ps 1)] \<rparr>
            else Some \<lparr> action = getUser, args = JObj [(''id'', segment ps 1)] \<rparr>)
         else Some \<lparr> action = getUsers, args = queryStringParameters \<rparr>)
      else None)"

text \<open>The third \<open>switch\<close>: POST routes.\<close>

definition switchPost :: "jsval \<Rightarrow> string list \<Rightarrow> jsval \<Rightarrow> act option" where
  "switchPost key ps postData =
     (if key = JStr ''users'' then
        (if segment ps 1 = JStr ''login''
         then Some \<lparr> action = loginUser, args = postData \<rparr>
         else if segment ps 1 = JStr ''register''
         then Some \<lparr> action = registerUser, args = postData \<rparr>
         else if isIdFormat (segment ps 1) then
           (if segment ps 2 = JStr ''favourites'' then
              (if isIdFormat (segment ps 3)
               then Some \<lparr> action = addUserFavourite,
                           args = JObj [(''id'', segment ps 1), (''venueId'', segment ps 3)] \<rparr>
               else None)
            else Some \<lparr> action = activateUser, args = JObj [(''id'', segment ps 1)] \<rparr>)
         else None)
      else None)"

text \<open>The fourth \<open>switch\<close>: DELETE routes.\<close>

definition switchDelete :: "jsval \<Rightarrow> string list \<Rightarrow> act option" where
  "switchDelete key ps =
     (if key = JStr ''users'' then
        (if isIdFormat (segment ps 1) then
           (if segment ps 2 = JStr ''favourites'' then
              (if isIdFormat (segment ps 3)
               then Some \<lparr> action = removeUserFavourite,
                           args = JObj [(''id'', segment ps 1), (''venueId'', segment ps 3)] \<rparr>
               else None)
            else Some \<lparr> action = deactivateUser, args = JObj [(''id'', segment ps 1)] \<rparr>)
         else None)
      else None)"

definition pathSegments :: "request \<Rightarrow> string list" where
  "pathSegments req = filter (\<lambda>v. v \<noteq> []) (splitWhen (\<lambda>c. c = CHR ''/'') (reqPathname req))"

text \<open>
  \<open>route(req, postData = {})\<close>. Every \<open>switch\<close> after the first looks at the path only
  while \<open>action\<close> is still \<open>undefined\<close>; a request that leaves it so gets the not-found
  Action with \<open>args = undefined\<close>. Nothing in \<open>route\<close> throws on a parsed URL, so the
  handler's \<open>catch\<close> around the call is never entered.
\<close>

definition route :: "world \<Rightarrow> request \<Rightarrow> jsval \<Rightarrow> act" where
  "route w req postData0 =
     (let postData = (if postData0 = JUndefined then JObj [] else postData0);
          method = reqMethod req;
          ps = pathSegments req;
          a1 = switchDevGet (if isDev w \<and> method = ''GET'' then segment ps 0 else JUndefined) ps;
          a2 = (case a1 of Some a \<Rightarrow> Some a
                | None \<Rightarrow> switchGet (if method = ''GET'' then segment ps 0 else JUndefined) ps (reqQuery req));
          a3 = (case a2 of Some a \<Rightarrow> Some a
                | None \<Rightarrow> switchPost (if method = ''POST'' then segment ps 0 else JUndefined) ps postData);
          a4 = (case a3 of Some a \<Rightarrow> Some a
                | None \<Rightarrow> switchDelete (if method = ''DELETE'' then segment ps 0 else JUndefined) ps)
      in case a4 of
           Some a \<Rightarrow> a
         | None \<Rightarrow> \<lparr> action = actResponseNotFound, args = JUndefined \<rparr>)"

subsection \<open>\<open>getPostData\<close>\<close>

text \<open>
  The promise of \<open>getPostData\<close> is rejected (with a string) on a content type that is
  neither of the two accepted ones and when the data received so far exceed the
  limit; a later \<open>resolve\<close> does nothing. Otherwise it resolves at the end of the body
  with the parsed data. \<open>JSON.parse\<close> runs inside the \<open>end\<close> listener: when it throws,
  the promise is never settled.
\<close>

datatype post_result = Resolved jsval | Rejected string | Unsettled js_error

definition APP_JSON :: string where
  "APP_JSON = ''application/json''"

definition APP_FORM_URLENCODED :: string where
  "APP_FORM_URLENCODED = ''application/x-www-form-urlencoded''"

fun receiveChunks :: "nat \<Rightarrow> string \<Rightarrow> string list \<Rightarrow> string option" where
  "receiveChunks limit data [] = Some data"
| "receiveChunks limit data (dataChunk # rest) =
     (if length (data @ dataChunk) > limit then None
      else receiveChunks limit (data @ dataChunk) rest)"

definition getPostData :: "world \<Rightarrow> request \<Rightarrow> post_result" where
  "getPostData w req =
     (let contentType = map_of (reqHeaders req) ''content-type'' in
      if contentType \<noteq> Some APP_FORM_URLENCODED \<and> contentType \<noteq> Some APP_JSON
      then Rejected ''POST data content-type must be one of the accepted types''
      else (case receiveChunks (KEBAPI_SERVER_POST_MAX_SIZE (cfg w)) [] (reqBody req) of
              None \<Rightarrow> Rejected ''POST data size limit exceeded. Too much data sent.''
            | Some data \<Rightarrow>
                if contentType = Some APP_FORM_URLENCODED then Resolved (qs_parse w data)
                else (case JSON_parse w data of
                        Inr parsedData \<Rightarrow> Resolved parsedData
                      | Inl err \<Rightarrow> Unsettled err)))"

subsection \<open>Messages\<close>

text \<open>The messages of the coded errors (logged) and of the responses (sent).\<close>

definition KE110_message :: string where
  "KE110_message = ''Cannot verify owner. Action does not have an owner flag properly set.''"

definition KE111_message :: string where
  "KE111_message = ''Cannot verify owner. Action is flagged as having an owner, but act.args does not contain the expected id.''"

definition KE120_message :: string where
  "KE120_message = ''Invalid token. Id missing from payload.''"

definition KE130_message :: string where
  "KE130_message = ''Attempt to retrieve user role returned no role.''"

definition KE140_message :: string where
  "KE140_message = ''Token missing from header.''"

definition misconfigurationText :: string where
  "misconfigurationText = ''There is a misconfiguration problem on the server. Try again in a bit.''"

definition missingTokenText :: string where
  "missingTokenText = ''Missing an expected token.''"

definition tokenAccessText :: string where
  "tokenAccessText = ''Something went wrong accessing an expected token.''"

definition payloadMissingText :: string where
  "payloadMissingText = ''Invalid token. Expected data missing from payload.''"

definition invalidTokenText :: string where
  "invalidTokenText = ''Invalid token.''"

definition loginAgainText :: string where
  "loginAgainText = ''Invalid token. You may need to log in again.''"

definition tokenInformationText :: string where
  "tokenInformationText = ''Error retrieving token information.''"

definition rolePermissionsText :: string where
  "rolePermissionsText = ''Error checking role permissions.''"

definition verifyOwnershipText :: string where
  "verifyOwnershipText = ''Cannot verify ownership permissions.''"

definition checkingOwnershipText :: string where
  "checkingOwnershipText = ''Error checking ownership permissions.''"

definition respondingText :: string where
  "respondingText = ''An error occurred responding to your request. Please try again later.''"

definition forbiddenText :: string where
  "forbiddenText = ''You do not have permission to do that.''"

definition databaseText :: string where
  "databaseText = ''There is a problem connecting to the database or verifying it. Try again in a bit.''"

definition postDataText :: string where
  "postDataText = ''There was a problem with the post data received in the request.''"

subsection \<open>Token and permission checks\<close>

text \<open>
  \<open>getTokenFromRequest\<close>: the header \<open>x-access-token\<close>; an absent header and an empty
  one are both falsy.
\<close>

definition getTokenFromRequest :: "request \<Rightarrow> js_error + string" where
  "getTokenFromRequest req =
     (case map_of (reqHeaders req) ''x-access-token'' of
        None \<Rightarrow> Inl (CodedError ''KE140'' KE140_message)
      | Some requestToken \<Rightarrow>
          if requestToken = [] then Inl (CodedError ''KE140'' KE140_message)
          else Inr requestToken)"

text \<open>The message built from \<open>verifyResult.rejectReason\<close>, which may be \<open>undefined\<close>.\<close>

definition rejectMessage :: "string option \<Rightarrow> string" where
  "rejectMessage r =
     ''Invalid token. Reject reason: '' @ [CHR 0x27]
       @ (case r of None \<Rightarrow> ''undefined'' | Some m \<Rightarrow> m) @ [CHR 0x27] @ ''.''"

text \<open>
  \<open>getIdFromToken\<close>. \<open>verifyResult.payload.id\<close> throws a TypeError when the result has
  no payload. Whatever is thrown inside is logged and thrown again.
\<close>

definition getIdFromToken :: "world \<Rightarrow> string \<Rightarrow> js_error + jsval" where
  "getIdFromToken w token =
     (case auth_verifyToken (cfg w) (lib w) (clock w) token of
        Inl err \<Rightarrow> Inl err
      | Inr verifyResult \<Rightarrow>
          if verified verifyResult then
            (case getProp (case payload verifyResult of None \<Rightarrow> JUndefined | Some p \<Rightarrow> p) ''id'' of
               Inl err \<Rightarrow> Inl err
             | Inr i \<Rightarrow>
                 if \<not> isIdFormat i
                 then Inl (CodedError ''KE120'' KE120_message)
                 else Inr i)
          else
            (let code =
                   (if rejectErrorType verifyResult = Some ''JsonWebTokenError'' then Some ''KE122''
                    else if rejectErrorType verifyResult = Some ''TokenExpiredError'' then Some ''KE123''
                    else None)
             in case code of
                  Some c \<Rightarrow> Inl (CodedError c (rejectMessage (rejectReason verifyResult)))
                | None \<Rightarrow> Inl (Error (rejectMessage (rejectReason verifyResult)))))"

text \<open>\<open>n <= act.action.minRole\<close>: false against \<open>undefined\<close>.\<close>

definition leMinRole :: "int \<Rightarrow> int option \<Rightarrow> bool" where
  "leMinRole n m = (case m of None \<Rightarrow> False | Some r \<Rightarrow> n \<le> r)"

record role_permission =
  hasPermission :: bool
  role :: role_row

text \<open>
  \<open>checkRoleGrantsPermissionForAction\<close> (the id interpolated in the message of
  \<open>KE130\<close> is left out: the message is only logged).
\<close>

definition checkRoleGrantsPermissionForAction ::
    "registry \<Rightarrow> world \<Rightarrow> jsval \<Rightarrow> act \<Rightarrow> js_error + role_permission" where
  "checkRoleGrantsPermissionForAction reg w i a =
     (case dal_getUserRole w i of
        Inl err \<Rightarrow> Inl err
      | Inr roleResult \<Rightarrow>
          (case roleResult of
             [] \<Rightarrow> Inl (CodedError ''KE130'' KE130_message)
           | r # _ \<Rightarrow>
               Inr \<lparr> hasPermission =
                       (role_id r = Role_ADMIN \<or> leMinRole (role_id r) (minRole (reg (action a)))),
                     role = r \<rparr>))"

definition checkOwnershipGrantsPermissionForAction ::
    "registry \<Rightarrow> jsval \<Rightarrow> act \<Rightarrow> js_error + bool" where
  "checkOwnershipGrantsPermissionForAction reg i a =
     (let h = hasOwner (reg (action a)) in
      if h = JUndefined \<or> (h \<noteq> JBool True \<and> h \<noteq> JBool False)
      then Inl (CodedError ''KE110'' KE110_message)
      else if h = JBool False then Inr True
      else
        (case hasOwnProperty (args a) ''id'' of
           Inl err \<Rightarrow> Inl err
         | Inr own \<Rightarrow>
             if \<not> own
             then Inl (CodedError ''KE111'' KE111_message)
             else (case getProp (args a) ''id'' of
                     Inl err \<Rightarrow> Inl err
                   | Inr v \<Rightarrow> Inr (strictEqNum i (parseInt10 v)))))"

subsection \<open>The request handler\<close>

text \<open>
  The calls the permission stage makes, in order, and the execution of the Action:
  what a request caused to happen besides its response.
\<close>

datatype call =
    TokenExtraction
  | TokenVerification string
  | RoleLookup jsval
  | OwnershipCheck jsval
  | HandlerExecution action "jsval list"

text \<open>
  What the handler holds when it sends the response: \<open>result\<close>, the two permission
  flags, and the calls made.
\<close>

record outcome =
  result :: envelope
  hasRolePermission :: bool
  hasOwnershipPermission :: bool
  calls :: "call list"

definition errorOutcome :: "envelope \<Rightarrow> call list \<Rightarrow> outcome" where
  "errorOutcome r cs =
     \<lparr> result = r, hasRolePermission = False, hasOwnershipPermission = False, calls = cs \<rparr>"

text \<open>
  Calling an Action: the response helpers are the functions of \<open>api.js\<close> above, the
  others are the world's. An array of arguments is spread.
\<close>

definition argumentList :: "jsval \<Rightarrow> jsval list" where
  "argumentList v = (case v of JArr xs \<Rightarrow> xs | _ \<Rightarrow> [v])"

definition firstArgument :: "jsval list \<Rightarrow> jsval" where
  "firstArgument vs = (case vs of [] \<Rightarrow> JUndefined | v # _ \<Rightarrow> v)"

definition callAction :: "world \<Rightarrow> action \<Rightarrow> jsval list \<Rightarrow> js_error + envelope" where
  "callAction w f vs =
     (if f = actResponseBadRequest then Inr (responseBadRequest (firstArgument vs))
      else if f = actResponseUnauthorised then Inr (responseUnauthorised (firstArgument vs))
      else if f = actResponseForbidden then Inr (responseForbidden (firstArgument vs))
      else if f = actResponseNotFound then Inr (responseNotFound (firstArgument vs))
      else if f = actResponsePayloadTooLarge then Inr (responsePayloadTooLarge (firstArgument vs))
      else if f = actResponseInternalServerError
      then Inr (responseInternalServerError (firstArgument vs))
      else handlers w f vs)"

text \<open>
  The database checks made before the permissions, for every Action but the
  not-found one: each must return exactly \<open>true\<close> (\<open>allExist\<close> for the third), and a
  throw counts as a failure.
\<close>

definition databaseReady :: "world \<Rightarrow> act \<Rightarrow> bool" where
  "databaseReady w a =
     (if action a = actResponseNotFound then True
      else if dal_checkDBExists w \<noteq> Inr (JBool True) then False
      else if dal_setTargetDB w \<noteq> Inr (JBool True) then False
      else (case dal_checkTablesExist w of
              Inl err \<Rightarrow> False
            | Inr r \<Rightarrow> getProp r ''allExist'' = Inr (JBool True)))"

text \<open>
  The permission stage (\<open>// Evaluate permissions needed to execute Action\<close>). It ends
  early, with the response set where the error was thrown, or it runs to its end;
  either way it leaves the two flags as they were last assigned, and the calls made.
\<close>

record permission_state =
  thrown :: "envelope option"
  rolePermission :: bool
  ownershipPermission :: bool
  made :: "call list"

definition evaluatePermissions :: "registry \<Rightarrow> world \<Rightarrow> request \<Rightarrow> act \<Rightarrow> permission_state" where
  "evaluatePermissions reg w req a =
     (if minRole (reg (action a)) = None then
        \<lparr> thrown = Some (responseInternalServerError
                  (JStr misconfigurationText)),
          rolePermission = False, ownershipPermission = False, made = [] \<rparr>
      else if minRole (reg (action a)) = Some Role_EVERYONE then
        \<lparr> thrown = None, rolePermission = True, ownershipPermission = True, made = [] \<rparr>
      else
        (case getTokenFromRequest req of
           Inl err \<Rightarrow>
             \<lparr> thrown = Some (if errCode err = Some ''KE140''
                   then responseUnauthorised (JStr missingTokenText)
                   else responseInternalServerError
                          (JStr tokenAccessText)),
               rolePermission = False, ownershipPermission = False,
               made = [TokenExtraction] \<rparr>
         | Inr token \<Rightarrow>
             (case getIdFromToken w token of
                Inl err \<Rightarrow>
                  \<lparr> thrown = Some (if errCode err = Some ''KE120''
                        then responseUnauthorised
                               (JStr payloadMissingText)
                        else if errCode err = Some ''KE122''
                        then responseUnauthorised (JStr invalidTokenText)
                        else if errCode err = Some ''KE123''
                        then responseUnauthorised
                               (JStr loginAgainText)
                        else responseInternalServerError
                               (JStr tokenInformationText)),
                    rolePermission = False, ownershipPermission = False,
                    made = [TokenExtraction, TokenVerification token] \<rparr>
              | Inr i \<Rightarrow>
                  (case checkRoleGrantsPermissionForAction reg w i a of
                     Inl err \<Rightarrow>
                       \<lparr> thrown = Some (responseInternalServerError
                                  (JStr rolePermissionsText)),
                         rolePermission = False, ownershipPermission = False,
                         made = [TokenExtraction, TokenVerification token, RoleLookup i] \<rparr>
                   | Inr rolePermissionResult \<Rightarrow>
                       if role_id (role rolePermissionResult) = Role_ADMIN
                       then \<lparr> thrown = None,
                              rolePermission = hasPermission rolePermissionResult,
                              ownershipPermission = True,
                              made = [TokenExtraction, TokenVerification token, RoleLookup i] \<rparr>
                       else
                         (case checkOwnershipGrantsPermissionForAction reg i a of
                            Inl err \<Rightarrow>
                              \<lparr> thrown = Some
                                  (if errCode err = Some ''KE110'' \<or> errCode err = Some ''KE111''
                                   then responseInternalServerError
                                          (JStr verifyOwnershipText)
                                   else responseInternalServerError
                                          (JStr checkingOwnershipText)),
                                rolePermission = hasPermission rolePermissionResult,
                                ownershipPermission = False,
                                made = [TokenExtraction, TokenVerification token, RoleLookup i,
                                        OwnershipCheck i] \<rparr>
                          | Inr own \<Rightarrow>
                              \<lparr> thrown = None,
                                rolePermission = hasPermission rolePermissionResult,
                                ownershipPermission = own,
                                made = [TokenExtraction, TokenVerification token, RoleLookup i,
                                        OwnershipCheck i] \<rparr>)))))"

text \<open>
  The authorization pipeline of the handler: the permission stage followed by the
  final gate (\<open>// If we have the right permissions, execute the Action\<close>). The Action
  is executed when both flags hold (a throw of the Action becomes the 500 response),
  and the answer is Forbidden otherwise.
\<close>

definition authorizationPipeline :: "registry \<Rightarrow> world \<Rightarrow> request \<Rightarrow> act \<Rightarrow> outcome" where
  "authorizationPipeline reg w req a =
     (let st = evaluatePermissions reg w req a in
      case thrown st of
        Some r \<Rightarrow>
          \<lparr> result = r,
            hasRolePermission = rolePermission st,
            hasOwnershipPermission = ownershipPermission st,
            calls = made st \<rparr>
      | None \<Rightarrow>
          if rolePermission st \<and> ownershipPermission st then
            \<lparr> result =
                (case callAction w (action a) (argumentList (args a)) of
                   Inr r \<Rightarrow> r
                 | Inl err \<Rightarrow>
                     responseInternalServerError
                       (JStr respondingText)),
              hasRolePermission = rolePermission st,
              hasOwnershipPermission = ownershipPermission st,
              calls = made st @ [HandlerExecution (action a) (argumentList (args a))] \<rparr>
          else
            \<lparr> result = responseForbidden (JStr forbiddenText),
              hasRolePermission = rolePermission st,
              hasOwnershipPermission = ownershipPermission st,
              calls = made st \<rparr>)"

text \<open>What follows the routing: the database checks, then the permission stage.\<close>

definition respond :: "registry \<Rightarrow> world \<Rightarrow> request \<Rightarrow> act \<Rightarrow> outcome" where
  "respond reg w req a =
     (if \<not> databaseReady w a
      then errorOutcome
             (responseInternalServerError
                (JStr databaseText))
             []
      else authorizationPipeline reg w req a)"

text \<open>
  The handler of \<open>http.createServer\<close>: POST data are collected first, for every POST
  request; then the request is routed and answered. \<open>None\<close>: no response is sent,
  because the promise of \<open>getPostData\<close> is never settled.
\<close>

definition handleRequest :: "registry \<Rightarrow> world \<Rightarrow> request \<Rightarrow> outcome option" where
  "handleRequest reg w req =
     (if reqMethod req = ''POST'' then
        (case getPostData w req of
           Rejected err \<Rightarrow>
             Some (errorOutcome
                     (responseBadRequest
                        (JStr postDataText))
                     [])
         | Unsettled err \<Rightarrow> None
         | Resolved postData \<Rightarrow> Some (respond reg w req (route w req postData)))
      else Some (respond reg w req (route w req JUndefined)))"

section \<open>The routing table\<close>

text \<open>
  The routes as the comments of \<open>route\<close> and the endpoint tables of the README list
  them, one table for each \<open>switch\<close>, in the order of the source. An entry names the
  method, the leading path segments and the Action, and whether it is served in the
  development environment only. A path matches an entry when it begins with the
  entry's segments: the router never looks at what follows them. \<open>Except\<close> stands for
  the \<open>else\<close> branch of the POST and DELETE routes of a user, taken when the third
  segment is missing or is not \<open>favourites\<close>.
\<close>

datatype segment_pattern = Literal string | IdParameter | Parameter | Except string

fun segmentMatches :: "segment_pattern \<Rightarrow> jsval \<Rightarrow> bool" where
  "segmentMatches (Literal l) v = (v = JStr l)"
| "segmentMatches IdParameter v = isIdFormat v"
| "segmentMatches Parameter v = truthy v"
| "segmentMatches (Except l) v = (v \<noteq> JStr l)"

fun patternMatches :: "segment_pattern list \<Rightarrow> string list \<Rightarrow> nat \<Rightarrow> bool" where
  "patternMatches [] ps i = True"
| "patternMatches (p # pats) ps i =
     (segmentMatches p (segment ps i) \<and> patternMatches pats ps (Suc i))"

record route_entry =
  development :: bool
  entryMethod :: string
  entryPattern :: "segment_pattern list"
  entryAction :: action

definition entry :: "bool \<Rightarrow> string \<Rightarrow> segment_pattern list \<Rightarrow> action \<Rightarrow> route_entry" where
  "entry d m p f = \<lparr> development = d, entryMethod = m, entryPattern = p, entryAction = f \<rparr>"

definition devGetRoutes :: "route_entry list" where
  "devGetRoutes =
    [ entry True ''GET'' [Literal ''gettoken'', IdParameter] getToken,
      entry True ''GET'' [Literal ''verifytoken'', Parameter] verifyToken,
      entry True ''GET'' [Literal ''gethash'', Parameter] getHash,
      entry True ''GET'' [Literal ''resettestdb''] resetTestDB,
      entry True ''GET'' [Literal ''tests'', Literal ''admin''] runAdminTests ]"

definition getRoutes :: "route_entry list" where
  "getRoutes =
    [ entry False ''GET'' [Literal ''venues'', IdParameter] getVenue,
      entry False ''GET'' [Literal ''venues''] getVenues,
      entry False ''GET'' [Literal ''users'', IdParameter, Literal ''favourites''] getUserFavourites,
      entry False ''GET'' [Literal ''users'', IdParameter, Literal ''role''] getUserRole,
      entry False ''GET'' [Literal ''users'', IdParameter, Literal ''status''] getUserAccountStatus,
      entry False ''GET'' [Literal ''users'', IdParameter] getUser,
      entry False ''GET'' [Literal ''users''] getUsers ]"

definition postRoutes :: "route_entry list" where
  "postRoutes =
    [ entry False ''POST'' [Literal ''users'', Literal ''login''] loginUser,
      entry False ''POST'' [Literal ''users'', Literal ''register''] registerUser,
      entry False ''POST'' [Literal ''users'', IdParameter, Literal ''favourites'', IdParameter] addUserFavourite,
      entry False ''POST'' [Literal ''users'', IdParameter, Except ''favourites''] activateUser ]"

definition deleteRoutes :: "route_entry list" where
  "deleteRoutes =
    [ entry False ''DELETE'' [Literal ''users'', IdParameter, Literal ''favourites'', IdParameter] removeUserFavourite,
      entry False ''DELETE'' [Literal ''users'', IdParameter, Except ''favourites''] deactivateUser ]"

definition routingTable :: "route_entry list" where
  "routingTable = devGetRoutes @ getRoutes @ postRoutes @ deleteRoutes"

text \<open>An entry matches a request: environment, method and leading segments.\<close>

definition entryMatches :: "bool \<Rightarrow> string \<Rightarrow> string list \<Rightarrow> route_entry \<Rightarrow> bool" where
  "entryMatches dev method ps e =
     ((dev \<or> \<not> development e) \<and> method = entryMethod e \<and> patternMatches (entryPattern e) ps 0)"

text \<open>First match wins.\<close>

definition firstMatch :: "world \<Rightarrow> request \<Rightarrow> route_entry option" where
  "firstMatch w req = find (entryMatches (isDev w) (reqMethod req) (pathSegments req)) routingTable"

definition matchesRoutingTable :: "world \<Rightarrow> request \<Rightarrow> bool" where
  "matchesRoutingTable w req =
     list_ex (entryMatches (isDev w) (reqMethod req) (pathSegments req)) routingTable"

section \<open>The contract of the token library\<close>

text \<open>
  A subject id that a token can carry unchanged: a finite number or a string (the
  payload is serialised as JSON, which has no \<open>undefined\<close> and no \<open>NaN\<close>).
\<close>

definition validSubjectId :: "jsval \<Rightarrow> bool" where
  "validSubjectId i = (case i of JNum (Fin n) \<Rightarrow> True | JStr s \<Rightarrow> True | _ \<Rightarrow> False)"

text \<open>
  What the round trip asks of \<open>jsonwebtoken\<close>: a token it signed for \<open>{ id: i }\<close>
  verifies under the same secret at any instant before its expiry, and the payload
  returned is an object that carries the same \<open>id\<close>.
\<close>

definition jwtRoundTrip :: "jwt_lib \<Rightarrow> bool" where
  "jwtRoundTrip l =
     (\<forall>i secret expiresIn t0 t token.
        validSubjectId i \<longrightarrow>
        jwtSign l (JObj [(''id'', i)]) secret expiresIn t0 = Inr token \<longrightarrow>
        t < jwtExpiresAt l expiresIn t0 \<longrightarrow>
        (\<exists>p. jwtVerify l token secret t = Inr p \<and> truthy p \<and> getProp p ''id'' = Inr i))"

section \<open>Example inputs\<close>

text \<open>
  A small world to run the handler in: a token library that knows a handful of
  tokens, a database with an administrator (id 1) and a user (id 3), and Actions
  that answer 200.
\<close>

definition exampleLib :: jwt_lib where
  "exampleLib =
     \<lparr> jwtSign = (\<lambda>claims secret expiresIn now.
          if claims = JObj [(''id'', JNum (Fin 3))] then Inr ''token3''
          else if claims = JObj [(''id'', JNum (Fin 1))] then Inr ''token1''
          else Inl (Error ''payload not supported'')),
       jwtVerify = (\<lambda>token secret now.
          if token = ''token3'' then Inr (JObj [(''id'', JNum (Fin 3))])
          else if token = ''token1'' then Inr (JObj [(''id'', JNum (Fin 1))])
          else if token = ''tokenEmpty'' then Inr (JObj [(''id'', JStr [])])
          else if token = ''tokenNegative'' then Inr (JObj [(''id'', JNum (Fin (- 5)))])
          else if token = ''tokenExpired''
          then Inl (JsError ''TokenExpiredError'' None ''jwt expired'')
          else if token = ''tokenFault''
          then Inl (JsError ''Error'' None ''secretOrPublicKey must have a value'')
          else Inl (JsError ''JsonWebTokenError'' None ''jwt malformed'')),
       jwtExpiresAt = (\<lambda>expiresIn now. now + 86400) \<rparr>"

definition exampleConfig :: config where
  "exampleConfig =
     \<lparr> NODE_ENV = ''development'',
       KEBAPI_AUTH_SECRET = ''c0876970129d079ea69c96c30475b557'',
       KEBAPI_AUTH_TOKEN_EXPIRY_MS = JNum (Fin 86400),
       KEBAPI_SERVER_POST_MAX_SIZE = 16384 \<rparr>"

definition exampleWorld :: world where
  "exampleWorld =
     \<lparr> cfg = exampleConfig,
       lib = exampleLib,
       clock = 1000,
       dal_checkDBExists = Inr (JBool True),
       dal_setTargetDB = Inr (JBool True),
       dal_checkTablesExist = Inr (JObj [(''allExist'', JBool True), (''notFound'', JArr [])]),
       dal_getUserRole = (\<lambda>i.
          if i = JNum (Fin 1) then Inr [\<lparr> role_id = 0, role_name = ''admin'' \<rparr>]
          else if i = JNum (Fin 3) then Inr [\<lparr> role_id = 1, role_name = ''user'' \<rparr>]
          else Inr []),
       qs_parse = (\<lambda>data. JObj []),
       JSON_parse = (\<lambda>data. Inr (JObj [])),
       handlers = (\<lambda>f vs. Inr (formatResult code_OK (JStr ''done''))) \<rparr>"

definition exampleRequest :: "string \<Rightarrow> string \<Rightarrow> (string \<times> string) list \<Rightarrow> request" where
  "exampleRequest m p hs =
     \<lparr> reqMethod = m, reqPathname = p, reqQuery = JObj [], reqHeaders = hs, reqBody = [] \<rparr>"

text \<open>\<open>GET /users/3\<close> and \<open>GET /users/9\<close> as the router resolves them.\<close>

definition getUser3 :: act where
  "getUser3 = \<lparr> action = getUser, args = JObj [(''id'', JStr ''3'')] \<rparr>"

definition getUser9 :: act where
  "getUser9 = \<lparr> action = getUser, args = JObj [(''id'', JStr ''9'')] \<rparr>"

text \<open>\<open>GET /venues\<close> as the router resolves it, and an Action that no table registers.\<close>

definition getVenues0 :: act where
  "getVenues0 = \<lparr> action = getVenues, args = JObj [] \<rparr>"

definition unauthorised0 :: act where
  "unauthorised0 = \<lparr> action = actResponseUnauthorised, args = JStr ''hello'' \<rparr>"

text \<open>
  An owner-scoped Action whose arguments lack the \<open>id\<close>, and the request of the
  scenario \<open>GET /nonexistent/path\<close>.
\<close>

definition noIdAct :: act where
  "noIdAct = \<lparr> action = getUser, args = JObj [(''venueId'', JStr ''3'')] \<rparr>"

definition nonexistentPath :: request where
  "nonexistentPath = exampleRequest ''GET'' ''/nonexistent/path'' []"

section \<open>Facts about the registry, the response codes and the examples\<close>

lemmas registry_defs = registered_def permissions_def unregistered_def
  Role_ADMIN_def Role_USER_def Role_EVERYONE_def

lemmas code_defs = code_OK_def code_BadRequest_def code_Unauthorised_def code_Forbidden_def
  code_NotFound_def code_PayloadTooLarge_def code_InternalServerError_def

lemmas response_defs = responseBadRequest_def responseUnauthorised_def responseForbidden_def
  responseNotFound_def responsePayloadTooLarge_def responseInternalServerError_def
  formatResult_def defaultMsg_def

lemmas text_defs = misconfigurationText_def missingTokenText_def tokenAccessText_def
  payloadMissingText_def invalidTokenText_def loginAgainText_def tokenInformationText_def
  rolePermissionsText_def verifyOwnershipText_def checkingOwnershipText_def respondingText_def
  forbiddenText_def databaseText_def postDataText_def

lemmas example_defs = exampleWorld_def exampleLib_def exampleConfig_def exampleRequest_def
  getUser3_def getUser9_def getVenues0_def unauthorised0_def noIdAct_def nonexistentPath_def


lemma registered_getUser:
  "registered getUser = \<lparr> minRole = Some Role_USER, hasOwner = JBool True \<rparr>"
  by (simp add: registry_defs)

lemma registered_notFound:
  "registered actResponseNotFound = \<lparr> minRole = Some Role_EVERYONE, hasOwner = JBool False \<rparr>"
  by (simp add: registry_defs)

lemma user_not_everyone: "Role_USER \<noteq> Role_EVERYONE"
  by (simp add: Role_USER_def Role_EVERYONE_def)

lemma example_token:
  "getTokenFromRequest (exampleRequest m p [(''x-access-token'', c # cs)]) = Inr (c # cs)"
  by (simp add: exampleRequest_def getTokenFromRequest_def)

lemma example_verify:
  "jwtVerify (lib exampleWorld) ''token3'' (KEBAPI_AUTH_SECRET (cfg exampleWorld)) (clock exampleWorld) =
     Inr (JObj [(''id'', JNum (Fin 3))])"
  "jwtVerify (lib exampleWorld) ''token1'' (KEBAPI_AUTH_SECRET (cfg exampleWorld)) (clock exampleWorld) =
     Inr (JObj [(''id'', JNum (Fin 1))])"
  "jwtVerify (lib exampleWorld) ''tokenEmpty'' (KEBAPI_AUTH_SECRET (cfg exampleWorld)) (clock exampleWorld) =
     Inr (JObj [(''id'', JStr [])])"
  "jwtVerify (lib exampleWorld) ''tokenExpired'' (KEBAPI_AUTH_SECRET (cfg exampleWorld)) (clock exampleWorld) =
     Inl (JsError ''TokenExpiredError'' None ''jwt expired'')"
  "jwtVerify (lib exampleWorld) ''tokenFault'' (KEBAPI_AUTH_SECRET (cfg exampleWorld)) (clock exampleWorld) =
     Inl (JsError ''Error'' None ''secretOrPublicKey must have a value'')"
  by (simp_all add: exampleWorld_def exampleLib_def)


lemma example_roles:
  "dal_getUserRole exampleWorld (JNum (Fin 3)) = Inr (\<lparr> role_id = 1, role_name = ''user'' \<rparr> # [])"
  "dal_getUserRole exampleWorld (JNum (Fin 1)) = Inr (\<lparr> role_id = 0, role_name = ''admin'' \<rparr> # [])"
  by (simp_all add: exampleWorld_def)


section \<open>The role check\<close>

text \<open>
  Claim C3. The role check of \<open>checkRoleGrantsPermissionForAction\<close>: for a subject whose
  role row has level \<open>R1\<close> and an Action whose \<open>minRole\<close> is \<open>R2\<close>, permission is granted
  exactly when \<open>R1\<close> is the administrator's level or \<open>R1 \<le> R2\<close>. This holds for all
  levels, so for every pairing of \<open>ADMIN\<close>, \<open>USER\<close> and \<open>EVERYONE\<close>.
\<close>

theorem role_check_covers:
  assumes "dal_getUserRole w i = Inr (r # rs)"
    and "role_id r = R1"
    and "minRole (reg (action a)) = Some R2"
  shows "\<exists>p. checkRoleGrantsPermissionForAction reg w i a = Inr p \<and> role p = r \<and>
           (hasPermission p \<longleftrightarrow> (R1 = Role_ADMIN \<or> R1 \<le> R2))"
  using assms by (simp add: checkRoleGrantsPermissionForAction_def leMinRole_def)

theorem role_check_covers_witness:
  "\<exists>p. checkRoleGrantsPermissionForAction registered exampleWorld (JNum (Fin 3)) getUser3 = Inr p \<and>
       role p = \<lparr> role_id = 1, role_name = ''user'' \<rparr> \<and>
       (hasPermission p \<longleftrightarrow> (Role_USER = Role_ADMIN \<or> Role_USER \<le> Role_USER))"
proof -
  have h2: "role_id \<lparr> role_id = 1, role_name = ''user'' \<rparr> = Role_USER"
    by (simp add: Role_USER_def)
  have h3: "minRole (registered (action getUser3)) = Some Role_USER"
    by (simp add: getUser3_def registered_getUser)
  show ?thesis
    by (rule role_check_covers [where reg = registered and a = getUser3,
          OF example_roles(1) h2 h3])
qed

section \<open>The permission stage\<close>

text \<open>
  Claim C6. For an Action whose registered \<open>minRole\<close> is \<open>EVERYONE\<close>, the permission
  stage grants both permissions and the Action is executed; the only call made is
  the execution of the Action: no token is extracted or verified, no role is looked
  up, no ownership is checked. The response is what the Action returns (500 if it
  throws).
\<close>

theorem everyone_short_circuit:
  assumes "minRole (reg (action a)) = Some Role_EVERYONE"
  shows "hasRolePermission (authorizationPipeline reg w req a) \<and>
         hasOwnershipPermission (authorizationPipeline reg w req a) \<and>
         calls (authorizationPipeline reg w req a) = [HandlerExecution (action a) (argumentList (args a))] \<and>
         result (authorizationPipeline reg w req a) =
           (case callAction w (action a) (argumentList (args a)) of
              Inr r \<Rightarrow> r
            | Inl err \<Rightarrow> responseInternalServerError (JStr respondingText))"
  using assms by (simp add: authorizationPipeline_def evaluatePermissions_def Let_def)

theorem everyone_short_circuit_witness:
  "hasRolePermission (authorizationPipeline registered exampleWorld (exampleRequest ''GET'' ''/venues'' []) getVenues0) \<and>
   hasOwnershipPermission (authorizationPipeline registered exampleWorld (exampleRequest ''GET'' ''/venues'' []) getVenues0) \<and>
   calls (authorizationPipeline registered exampleWorld (exampleRequest ''GET'' ''/venues'' []) getVenues0) =
     [HandlerExecution getVenues [JObj []]] \<and>
   result (authorizationPipeline registered exampleWorld (exampleRequest ''GET'' ''/venues'' []) getVenues0) =
     \<lparr> responseCode = 200, responseStatus = ''OK'', response = JStr ''done'' \<rparr>"
proof -
  have h: "minRole (registered (action getVenues0)) = Some Role_EVERYONE"
    by (simp add: getVenues0_def registry_defs)
  show ?thesis
    using everyone_short_circuit [where reg = registered and a = getVenues0
        and w = exampleWorld and req = "exampleRequest ''GET'' ''/venues'' []", OF h]
    by (simp add: callAction_def argumentList_def getVenues0_def exampleWorld_def
          formatResult_def code_OK_def)
qed

text \<open>
  Claim C7. An Action whose \<open>minRole\<close> was never registered is answered with the
  Internal Error response: the permission stage stops at its first test with the
  misconfiguration message, and whatever the database checks before it say, the
  response code is 500, neither permission is granted and nothing is called, the
  Action included. The ownership check likewise throws \<open>KE110\<close> on an Action whose
  \<open>hasOwner\<close> was never set.
\<close>

theorem missing_metadata_internal_error:
  assumes "minRole (reg (action a)) = None"
  shows "result (authorizationPipeline reg w req a) =
           responseInternalServerError (JStr misconfigurationText) \<and>
         responseCode (result (respond reg w req a)) = 500 \<and>
         \<not> hasRolePermission (respond reg w req a) \<and>
         \<not> hasOwnershipPermission (respond reg w req a) \<and>
         calls (respond reg w req a) = [] \<and>
         (hasOwner (reg (action a)) = JUndefined \<longrightarrow>
            checkOwnershipGrantsPermissionForAction reg i a =
              Inl (CodedError ''KE110'' KE110_message))"
  using assms
  by (simp add: respond_def authorizationPipeline_def evaluatePermissions_def Let_def
      errorOutcome_def responseInternalServerError_def formatResult_def
      code_InternalServerError_def checkOwnershipGrantsPermissionForAction_def)

theorem missing_metadata_internal_error_witness:
  "result (authorizationPipeline registered exampleWorld (exampleRequest ''GET'' ''/'' []) unauthorised0) =
     \<lparr> responseCode = 500, responseStatus = ''Internal Server Error'',
       response = JStr ''There is a misconfiguration problem on the server. Try again in a bit.'' \<rparr> \<and>
   responseCode (result (respond registered exampleWorld (exampleRequest ''GET'' ''/'' []) unauthorised0)) = 500 \<and>
   \<not> hasRolePermission (respond registered exampleWorld (exampleRequest ''GET'' ''/'' []) unauthorised0) \<and>
   \<not> hasOwnershipPermission (respond registered exampleWorld (exampleRequest ''GET'' ''/'' []) unauthorised0) \<and>
   calls (respond registered exampleWorld (exampleRequest ''GET'' ''/'' []) unauthorised0) = [] \<and>
   checkOwnershipGrantsPermissionForAction registered (JNum (Fin 3)) unauthorised0 =
     Inl (CodedError ''KE110'' KE110_message)"
proof -
  have h: "minRole (registered (action unauthorised0)) = None"
    and o: "hasOwner (registered (action unauthorised0)) = JUndefined"
    by (simp_all add: unauthorised0_def registry_defs)
  show ?thesis
    using missing_metadata_internal_error [where reg = registered and a = unauthorised0
        and w = exampleWorld and req = "exampleRequest ''GET'' ''/'' []" and i = "JNum (Fin 3)", OF h] o
    by (simp add: response_defs code_defs misconfigurationText_def)
qed

section \<open>Tokens\<close>

lemma verify_rejected:
  assumes "jwtVerify (lib w) token (KEBAPI_AUTH_SECRET (cfg w)) (clock w) = Inl e"
    and "errName e = ''JsonWebTokenError'' \<or> errName e = ''TokenExpiredError''"
  shows "getIdFromToken w token =
           Inl (CodedError (if errName e = ''JsonWebTokenError'' then ''KE122'' else ''KE123'')
                  (rejectMessage (spreadStr (errMessage e))))"
  using assms by (auto simp: getIdFromToken_def auth_verifyToken_def spreadStr_def Let_def)

lemma reasons_distinct:
  "invalidTokenText \<noteq> missingTokenText" "loginAgainText \<noteq> missingTokenText"
  by (simp_all add: text_defs)

text \<open>
  Claim C5. For an Action whose \<open>minRole\<close> is set and is not \<open>EVERYONE\<close>: when the header
  \<open>x-access-token\<close> is absent, the permission stage ends with the 401 response whose
  reason is the missing-token message, after the token extraction and nothing else.
  The reason is never shared with a rejected token: when a token is present and the
  library rejects it as malformed or as expired, the response is 401 with its own
  reason, different from the missing-token one.
\<close>

theorem missing_token_unauthorised:
  assumes "minRole (reg (action a)) = Some m" and "m \<noteq> Role_EVERYONE"
  shows "(map_of (reqHeaders req) ''x-access-token'' = None \<longrightarrow>
            result (authorizationPipeline reg w req a) = responseUnauthorised (JStr missingTokenText) \<and>
            responseCode (result (authorizationPipeline reg w req a)) = 401 \<and>
            calls (authorizationPipeline reg w req a) = [TokenExtraction]) \<and>
         (\<forall>token e. getTokenFromRequest req = Inr token \<longrightarrow>
            jwtVerify (lib w) token (KEBAPI_AUTH_SECRET (cfg w)) (clock w) = Inl e \<longrightarrow>
            errName e = ''JsonWebTokenError'' \<or> errName e = ''TokenExpiredError'' \<longrightarrow>
            responseCode (result (authorizationPipeline reg w req a)) = 401 \<and>
            response (result (authorizationPipeline reg w req a)) =
              JStr (if errName e = ''JsonWebTokenError'' then invalidTokenText else loginAgainText) \<and>
            response (result (authorizationPipeline reg w req a)) \<noteq> JStr missingTokenText)"
proof (intro conjI impI allI)
  assume "map_of (reqHeaders req) ''x-access-token'' = None"
  with assms show "result (authorizationPipeline reg w req a) = responseUnauthorised (JStr missingTokenText)"
    "responseCode (result (authorizationPipeline reg w req a)) = 401"
    "calls (authorizationPipeline reg w req a) = [TokenExtraction]"
    by (simp_all add: authorizationPipeline_def evaluatePermissions_def Let_def getTokenFromRequest_def
        CodedError_def response_defs code_defs)
next
  fix token e
  assume t: "getTokenFromRequest req = Inr token"
    and v: "jwtVerify (lib w) token (KEBAPI_AUTH_SECRET (cfg w)) (clock w) = Inl e"
    and n: "errName e = ''JsonWebTokenError'' \<or> errName e = ''TokenExpiredError''"
  have r: "result (authorizationPipeline reg w req a) =
        responseUnauthorised
          (JStr (if errName e = ''JsonWebTokenError'' then invalidTokenText else loginAgainText))"
    using assms t verify_rejected [OF v n]
    by (simp add: authorizationPipeline_def evaluatePermissions_def Let_def CodedError_def)
  show "responseCode (result (authorizationPipeline reg w req a)) = 401"
    by (simp add: r response_defs code_defs)
  show "response (result (authorizationPipeline reg w req a)) =
          JStr (if errName e = ''JsonWebTokenError'' then invalidTokenText else loginAgainText)"
    by (simp add: r response_defs)
  then show "response (result (authorizationPipeline reg w req a)) \<noteq> JStr missingTokenText"
    by (simp add: reasons_distinct)
qed

theorem missing_token_unauthorised_witness:
  "result (authorizationPipeline registered exampleWorld (exampleRequest ''GET'' ''/users/3'' []) getUser3) =
     \<lparr> responseCode = 401, responseStatus = ''Unauthorised'',
       response = JStr ''Missing an expected token.'' \<rparr> \<and>
   calls (authorizationPipeline registered exampleWorld (exampleRequest ''GET'' ''/users/3'' []) getUser3) =
     [TokenExtraction] \<and>
   response (result (authorizationPipeline registered exampleWorld
       (exampleRequest ''GET'' ''/users/3'' [(''x-access-token'', ''tokenExpired'')]) getUser3)) =
     JStr ''Invalid token. You may need to log in again.''"
proof -
  have h1: "minRole (registered (action getUser3)) = Some Role_USER"
    by (simp add: getUser3_def registered_getUser)
  have h3: "map_of (reqHeaders (exampleRequest ''GET'' ''/users/3'' [])) ''x-access-token'' = None"
    by (simp add: exampleRequest_def)
  note a = missing_token_unauthorised [where reg = registered and a = getUser3 and w = exampleWorld,
      OF h1 user_not_everyone]
  from a [where req = "exampleRequest ''GET'' ''/users/3'' []"] h3
    a [where req = "exampleRequest ''GET'' ''/users/3'' [(''x-access-token'', ''tokenExpired'')]"]
    example_token [of "''GET''" "''/users/3''" "CHR ''t''" "''okenExpired''"] example_verify(4)
  show ?thesis
    by (simp add: response_defs code_defs missingTokenText_def loginAgainText_def)
qed

text \<open>
  Claim C4. \<open>auth.verifyToken\<close> returns \<open>verified = false\<close> only when the library threw an
  error named \<open>JsonWebTokenError\<close> or \<open>TokenExpiredError\<close>, and the result then carries that
  name as its rejection kind. An error of the library with any other name leaves
  \<open>auth.verifyToken\<close> and \<open>getIdFromToken\<close> as it was thrown; unless it carries one of the
  server's own codes \<open>KE120\<close>, \<open>KE122\<close>, \<open>KE123\<close> (which no error of the library does),
  the permission stage answers it with the Internal Error response, code 500, after
  the token extraction and verification.
\<close>

theorem unexpected_verify_failure_internal_error:
  "(\<forall>r. auth_verifyToken (cfg w) (lib w) (clock w) token = Inr r \<longrightarrow> \<not> verified r \<longrightarrow>
      (\<exists>e. jwtVerify (lib w) token (KEBAPI_AUTH_SECRET (cfg w)) (clock w) = Inl e \<and>
           (errName e = ''JsonWebTokenError'' \<or> errName e = ''TokenExpiredError'') \<and>
           rejectErrorType r = Some (errName e))) \<and>
   (\<forall>e. jwtVerify (lib w) token (KEBAPI_AUTH_SECRET (cfg w)) (clock w) = Inl e \<longrightarrow>
      errName e \<noteq> ''JsonWebTokenError'' \<longrightarrow> errName e \<noteq> ''TokenExpiredError'' \<longrightarrow>
      auth_verifyToken (cfg w) (lib w) (clock w) token = Inl e \<and>
      getIdFromToken w token = Inl e \<and>
      (\<forall>m. minRole (reg (action a)) = Some m \<longrightarrow> m \<noteq> Role_EVERYONE \<longrightarrow>
           getTokenFromRequest req = Inr token \<longrightarrow>
           errCode e \<noteq> Some ''KE120'' \<longrightarrow> errCode e \<noteq> Some ''KE122'' \<longrightarrow>
           errCode e \<noteq> Some ''KE123'' \<longrightarrow>
           result (authorizationPipeline reg w req a) = responseInternalServerError (JStr tokenInformationText) \<and>
           responseCode (result (authorizationPipeline reg w req a)) = 500 \<and>
           calls (authorizationPipeline reg w req a) = [TokenExtraction, TokenVerification token]))"
proof (intro conjI allI impI)
  fix r
  assume "auth_verifyToken (cfg w) (lib w) (clock w) token = Inr r" and "\<not> verified r"
  then show "\<exists>e. jwtVerify (lib w) token (KEBAPI_AUTH_SECRET (cfg w)) (clock w) = Inl e \<and>
           (errName e = ''JsonWebTokenError'' \<or> errName e = ''TokenExpiredError'') \<and>
           rejectErrorType r = Some (errName e)"
    by (auto simp: auth_verifyToken_def spreadStr_def split: sum.splits if_splits)
next
  fix e
  assume v: "jwtVerify (lib w) token (KEBAPI_AUTH_SECRET (cfg w)) (clock w) = Inl e"
    and n: "errName e \<noteq> ''JsonWebTokenError''" "errName e \<noteq> ''TokenExpiredError''"
  show a: "auth_verifyToken (cfg w) (lib w) (clock w) token = Inl e"
    using v n by (simp add: auth_verifyToken_def)
  show g: "getIdFromToken w token = Inl e"
    using a by (simp add: getIdFromToken_def)
  fix m
  assume "minRole (reg (action a)) = Some m" "m \<noteq> Role_EVERYONE"
    "getTokenFromRequest req = Inr token"
    "errCode e \<noteq> Some ''KE120''" "errCode e \<noteq> Some ''KE122''" "errCode e \<noteq> Some ''KE123''"
  then show "result (authorizationPipeline reg w req a) = responseInternalServerError (JStr tokenInformationText)"
    "responseCode (result (authorizationPipeline reg w req a)) = 500"
    "calls (authorizationPipeline reg w req a) = [TokenExtraction, TokenVerification token]"
    using g by (simp_all add: authorizationPipeline_def evaluatePermissions_def Let_def response_defs code_defs)
qed

theorem unexpected_verify_failure_internal_error_witness:
  "auth_verifyToken exampleConfig exampleLib 1000 ''tokenFault'' =
     Inl (JsError ''Error'' None ''secretOrPublicKey must have a value'') \<and>
   result (authorizationPipeline registered exampleWorld
       (exampleRequest ''GET'' ''/users/3'' [(''x-access-token'', ''tokenFault'')]) getUser3) =
     \<lparr> responseCode = 500, responseStatus = ''Internal Server Error'',
       response = JStr ''Error retrieving token information.'' \<rparr>"
proof -
  have h2: "minRole (registered (action getUser3)) = Some Role_USER"
    by (simp add: getUser3_def registered_getUser)
  have c: "cfg exampleWorld = exampleConfig" "lib exampleWorld = exampleLib" "clock exampleWorld = 1000"
    by (simp_all add: exampleWorld_def)
  from unexpected_verify_failure_internal_error [where w = exampleWorld and token = "''tokenFault''"
      and reg = registered and a = getUser3
      and req = "exampleRequest ''GET'' ''/users/3'' [(''x-access-token'', ''tokenFault'')]"]
    example_verify(5) h2 user_not_everyone
    example_token [of "''GET''" "''/users/3''" "CHR ''t''" "''okenFault''"]
  show ?thesis
    by (simp add: c response_defs code_defs tokenInformationText_def)
qed

section \<open>The id format\<close>

lemma splitWhen_none: "\<forall>c\<in>set s. \<not> p c \<Longrightarrow> splitWhen p s = [s]"
  by (induction s) auto

lemma digit_not_terminator: "isDigit c \<Longrightarrow> \<not> isLineTerminator c"
  by (auto simp: isDigit_def isLineTerminator_def)

lemma digits_match: "\<forall>c\<in>set s. isDigit c \<Longrightarrow> matchesIdRegex s"
  by (simp add: matchesIdRegex_def splitWhen_none digit_not_terminator list_all_iff)

lemma getProp_defined_object:
  "getProp p k = Inr i \<Longrightarrow> i \<noteq> JUndefined \<Longrightarrow> truthy p"
  by (cases p) auto

lemma verified_id:
  assumes "jwtVerify (lib w) token (KEBAPI_AUTH_SECRET (cfg w)) (clock w) = Inr p"
    and "getProp p ''id'' = Inr i" and "i \<noteq> JUndefined" and "isIdFormat i"
  shows "getIdFromToken w token = Inr i"
  using assms getProp_defined_object [OF assms(2,3)]
  by (simp add: getIdFromToken_def auth_verifyToken_def spreadVal_def)

lemma thrown_after_id:
  assumes "minRole (reg (action a)) = Some m" and "m \<noteq> Role_EVERYONE"
    and "getTokenFromRequest req = Inr token" and "getIdFromToken w token = Inr i"
  shows "take 3 (made (evaluatePermissions reg w req a)) =
           [TokenExtraction, TokenVerification token, RoleLookup i] \<and>
         (\<forall>r. thrown (evaluatePermissions reg w req a) = Some r \<longrightarrow> responseCode r = 500)"
  using assms
  by (auto simp: evaluatePermissions_def response_defs code_defs split: sum.splits)

lemma take3_append:
  assumes "take 3 xs = [x, y, z]"
  shows "take 3 (xs @ ys) = [x, y, z]"
proof -
  from assms have "length (take 3 xs) = 3" by simp
  then have "3 \<le> length xs" by simp
  with assms show ?thesis by simp
qed

lemma calls_made:
  "take 3 (made (evaluatePermissions reg w req a)) = [x, y, z] \<Longrightarrow>
   take 3 (calls (authorizationPipeline reg w req a)) = [x, y, z]"
  by (auto simp: authorizationPipeline_def Let_def take3_append simp del: take_append split: option.splits)

text \<open>
  Claim C10. \<open>isIdFormat\<close> is true of every number, of every string of decimal digits
  and of the empty string. So when the library verifies a token whose payload \<open>id\<close> is
  the empty string or a negative number, \<open>getIdFromToken\<close> returns that id, and for an
  Action that needs a token the permission stage goes on to look up the role of that
  id: its first three calls are the extraction, the verification and the role
  lookup, and if it ends early from there the response is a 500, not the 401 of a
  payload without id.
\<close>

theorem id_format_accepts_empty_and_negative:
  "isIdFormat (JNum n) \<and>
   ((\<forall>c\<in>set s. isDigit c) \<longrightarrow> isIdFormat (JStr s)) \<and>
   isIdFormat (JStr []) \<and>
   (\<forall>p i. jwtVerify (lib w) token (KEBAPI_AUTH_SECRET (cfg w)) (clock w) = Inr p \<longrightarrow>
      getProp p ''id'' = Inr i \<longrightarrow>
      (i = JStr [] \<or> (\<exists>k. k < 0 \<and> i = JNum (Fin k))) \<longrightarrow>
      getIdFromToken w token = Inr i \<and>
      (\<forall>m. minRole (reg (action a)) = Some m \<longrightarrow> m \<noteq> Role_EVERYONE \<longrightarrow>
           getTokenFromRequest req = Inr token \<longrightarrow>
           take 3 (calls (authorizationPipeline reg w req a)) =
             [TokenExtraction, TokenVerification token, RoleLookup i] \<and>
           (\<forall>r. thrown (evaluatePermissions reg w req a) = Some r \<longrightarrow> responseCode r = 500)))"
proof (intro conjI allI impI)
  show "isIdFormat (JNum n)" by simp
  show "isIdFormat (JStr [])" by (simp add: digits_match)
next
  assume "\<forall>c\<in>set s. isDigit c"
  then show "isIdFormat (JStr s)" by (simp add: digits_match)
next
  fix p i
  assume v: "jwtVerify (lib w) token (KEBAPI_AUTH_SECRET (cfg w)) (clock w) = Inr p"
    and g: "getProp p ''id'' = Inr i"
    and i: "i = JStr [] \<or> (\<exists>k. k < 0 \<and> i = JNum (Fin k))"
  from i have "i \<noteq> JUndefined" and "isIdFormat i"
    by (auto simp: digits_match)
  with v g show id: "getIdFromToken w token = Inr i"
    by (simp add: verified_id)
  fix m
  assume "minRole (reg (action a)) = Some m" "m \<noteq> Role_EVERYONE"
    "getTokenFromRequest req = Inr token"
  from thrown_after_id [where reg = reg and a = a, OF this id]
  show "take 3 (calls (authorizationPipeline reg w req a)) =
             [TokenExtraction, TokenVerification token, RoleLookup i]"
    and "\<And>r. thrown (evaluatePermissions reg w req a) = Some r \<Longrightarrow> responseCode r = 500"
    by (simp_all add: calls_made)
qed

theorem id_format_accepts_empty_and_negative_witness:
  "isIdFormat (JNum (Fin (- 5))) \<and> isIdFormat (JStr ''2019'') \<and>
   getIdFromToken exampleWorld ''tokenEmpty'' = Inr (JStr []) \<and>
   take 3 (calls (authorizationPipeline registered exampleWorld
       (exampleRequest ''GET'' ''/users/3'' [(''x-access-token'', ''tokenEmpty'')]) getUser3)) =
     [TokenExtraction, TokenVerification ''tokenEmpty'', RoleLookup (JStr [])]"
proof -
  have h2: "getProp (JObj [(''id'', JStr [])]) ''id'' = Inr (JStr [])"
    by simp
  have h3: "minRole (registered (action getUser3)) = Some Role_USER"
    by (simp add: getUser3_def registered_getUser)
  have h6: "\<forall>c\<in>set ''2019''. isDigit c"
    by (simp add: isDigit_def)
  from id_format_accepts_empty_and_negative [where w = exampleWorld and token = "''tokenEmpty''"
      and reg = registered and a = getUser3 and n = "Fin (- 5)" and s = "''2019''"
      and req = "exampleRequest ''GET'' ''/users/3'' [(''x-access-token'', ''tokenEmpty'')]"]
    example_verify(3) h2 h3 user_not_everyone h6
    example_token [of "''GET''" "''/users/3''" "CHR ''t''" "''okenEmpty''"]
  show ?thesis
    by simp
qed

section \<open>Ownership\<close>







section \<open>The round trip of a token\<close>

text \<open>
  Claim C8. Given a token library that keeps its contract \<open>jwtRoundTrip\<close>: for every
  valid subject id \<open>i\<close>, a token that \<open>auth.getToken\<close> issued for \<open>i\<close> at \<open>t0\<close> is accepted
  by \<open>auth.verifyToken\<close> at any instant \<open>t\<close> before the expiry the configuration gives
  it, with \<open>verified = true\<close> and a payload whose \<open>id\<close> is \<open>i\<close>.
\<close>

theorem token_round_trip:
  assumes contract: "jwtRoundTrip l"
    and valid: "validSubjectId i"
    and issued: "auth_getToken c l t0 i = Inr token"
    and fresh: "t < jwtExpiresAt l (KEBAPI_AUTH_TOKEN_EXPIRY_MS c) t0"
  shows "\<exists>r p. auth_verifyToken c l t token = Inr r \<and> verified r \<and>
               payload r = Some p \<and> getProp p ''id'' = Inr i"
proof -
  from issued have "jwtSign l (JObj [(''id'', i)]) (KEBAPI_AUTH_SECRET c)
                      (KEBAPI_AUTH_TOKEN_EXPIRY_MS c) t0 = Inr token"
    by (simp add: auth_getToken_def)
  with contract valid fresh
  obtain p where p: "jwtVerify l token (KEBAPI_AUTH_SECRET c) t = Inr p" "truthy p"
      "getProp p ''id'' = Inr i"
    unfolding jwtRoundTrip_def by blast
  then show ?thesis
    by (simp add: auth_verifyToken_def spreadVal_def)
qed

theorem token_round_trip_witness:
  "\<exists>r p. auth_verifyToken exampleConfig exampleLib 5000 ''token3'' = Inr r \<and> verified r \<and>
         payload r = Some p \<and> getProp p ''id'' = Inr (JNum (Fin 3))"
proof -
  have h1: "jwtRoundTrip exampleLib"
    unfolding jwtRoundTrip_def exampleLib_def
    by (auto split: if_splits)
  have h2: "validSubjectId (JNum (Fin 3))"
    by (simp add: validSubjectId_def)
  have h3: "auth_getToken exampleConfig exampleLib 1000 (JNum (Fin 3)) = Inr ''token3''"
    by (simp add: auth_getToken_def exampleLib_def)
  have h4: "(5000::nat) < jwtExpiresAt exampleLib (KEBAPI_AUTH_TOKEN_EXPIRY_MS exampleConfig) 1000"
    by (simp add: exampleLib_def)
  show ?thesis
    by (rule token_round_trip [OF h1 h2 h3 h4])
qed

section \<open>The router\<close>

lemma login_not_id: "\<not> isIdFormat (JStr ''login'')" "\<not> isIdFormat (JStr ''register'')"
  by (simp_all add: matchesIdRegex_def isLineTerminator_def isDigit_def)

lemma find_append_option:
  "find P (xs @ ys) = (case find P xs of None \<Rightarrow> find P ys | Some x \<Rightarrow> Some x)"
  by (induction xs) auto

lemmas table_simps = entry_def entryMatches_def numeral_2_eq_2[symmetric] numeral_3_eq_3[symmetric]

lemma devGet_table:
  "map_option action (switchDevGet (if d \<and> m = ''GET'' then segment ps 0 else JUndefined) ps) =
   map_option entryAction (find (entryMatches d m ps) devGetRoutes)"
  by (simp add: switchDevGet_def devGetRoutes_def table_simps)

lemma get_table:
  "map_option action (switchGet (if m = ''GET'' then segment ps 0 else JUndefined) ps q) =
   map_option entryAction (find (entryMatches d m ps) getRoutes)"
  by (simp add: switchGet_def getRoutes_def table_simps)

lemma post_table:
  "map_option action (switchPost (if m = ''POST'' then segment ps 0 else JUndefined) ps pd) =
   map_option entryAction (find (entryMatches d m ps) postRoutes)"
  using login_not_id by (auto simp add: switchPost_def postRoutes_def table_simps)

lemma delete_table:
  "map_option action (switchDelete (if m = ''DELETE'' then segment ps 0 else JUndefined) ps) =
   map_option entryAction (find (entryMatches d m ps) deleteRoutes)"
  by (simp add: switchDelete_def deleteRoutes_def table_simps)

lemma first_some_flatten:
  "(case (case (case (case a1 of Some a \<Rightarrow> Some a | None \<Rightarrow> a2) of
              Some a \<Rightarrow> Some a | None \<Rightarrow> a3) of
        Some a \<Rightarrow> Some a | None \<Rightarrow> a4) of
      Some (a::act) \<Rightarrow> a | None \<Rightarrow> d) =
   (case a1 of Some a \<Rightarrow> a | None \<Rightarrow>
      (case a2 of Some a \<Rightarrow> a | None \<Rightarrow>
         (case a3 of Some a \<Rightarrow> a | None \<Rightarrow>
            (case a4 of Some a \<Rightarrow> a | None \<Rightarrow> d))))"
  by (simp split: option.splits)

lemma first_some_action:
  fixes a1 a2 a3 a4 :: "act option" and b1 b2 b3 b4 :: "route_entry option"
  assumes "map_option action a1 = map_option entryAction b1"
    and "map_option action a2 = map_option entryAction b2"
    and "map_option action a3 = map_option entryAction b3"
    and "map_option action a4 = map_option entryAction b4"
  shows "action (case a1 of Some a \<Rightarrow> a | None \<Rightarrow>
                  (case a2 of Some a \<Rightarrow> a | None \<Rightarrow>
                     (case a3 of Some a \<Rightarrow> a | None \<Rightarrow>
                        (case a4 of Some a \<Rightarrow> a | None \<Rightarrow> d)))) =
         (case (case b1 of None \<Rightarrow>
                  (case b2 of None \<Rightarrow> (case b3 of None \<Rightarrow> b4 | Some x \<Rightarrow> Some x)
                   | Some x \<Rightarrow> Some x)
                | Some x \<Rightarrow> Some x) of
            None \<Rightarrow> action d
          | Some e \<Rightarrow> entryAction e)"
  using assms by (auto split: option.splits)

lemma first_some_default:
  fixes a1 a2 a3 a4 :: "act option"
  assumes "\<And>a. a1 = Some a \<Longrightarrow> action a \<noteq> action d"
    and "\<And>a. a2 = Some a \<Longrightarrow> action a \<noteq> action d"
    and "\<And>a. a3 = Some a \<Longrightarrow> action a \<noteq> action d"
    and "\<And>a. a4 = Some a \<Longrightarrow> action a \<noteq> action d"
    and "action (case a1 of Some a \<Rightarrow> a | None \<Rightarrow>
                  (case a2 of Some a \<Rightarrow> a | None \<Rightarrow>
                     (case a3 of Some a \<Rightarrow> a | None \<Rightarrow>
                        (case a4 of Some a \<Rightarrow> a | None \<Rightarrow> d)))) = action d"
  shows "(case a1 of Some a \<Rightarrow> a | None \<Rightarrow>
                  (case a2 of Some a \<Rightarrow> a | None \<Rightarrow>
                     (case a3 of Some a \<Rightarrow> a | None \<Rightarrow>
                        (case a4 of Some a \<Rightarrow> a | None \<Rightarrow> d)))) = d"
  using assms by (auto split: option.splits)

lemma route_unfold:
  "route w req pd =
     (case switchDevGet (if isDev w \<and> reqMethod req = ''GET'' then segment (pathSegments req) 0
                         else JUndefined) (pathSegments req) of
        Some a \<Rightarrow> a
      | None \<Rightarrow>
     (case switchGet (if reqMethod req = ''GET'' then segment (pathSegments req) 0 else JUndefined)
             (pathSegments req) (reqQuery req) of
        Some a \<Rightarrow> a
      | None \<Rightarrow>
     (case switchPost (if reqMethod req = ''POST'' then segment (pathSegments req) 0 else JUndefined)
             (pathSegments req) (if pd = JUndefined then JObj [] else pd) of
        Some a \<Rightarrow> a
      | None \<Rightarrow>
     (case switchDelete (if reqMethod req = ''DELETE'' then segment (pathSegments req) 0
                         else JUndefined) (pathSegments req) of
        Some a \<Rightarrow> a
      | None \<Rightarrow> \<lparr> action = actResponseNotFound, args = JUndefined \<rparr>))))"
  unfolding route_def Let_def by (rule first_some_flatten)

lemma route_action:
  "action (route w req pd) =
     (case firstMatch w req of None \<Rightarrow> actResponseNotFound | Some e \<Rightarrow> entryAction e)"
proof -
  let ?P = "entryMatches (isDev w) (reqMethod req) (pathSegments req)"
  have "action (route w req pd) =
      (case (case find ?P devGetRoutes of None \<Rightarrow>
                  (case find ?P getRoutes of None \<Rightarrow>
                     (case find ?P postRoutes of None \<Rightarrow> find ?P deleteRoutes
                      | Some x \<Rightarrow> Some x)
                   | Some x \<Rightarrow> Some x)
                | Some x \<Rightarrow> Some x) of
            None \<Rightarrow> action \<lparr> action = actResponseNotFound, args = JUndefined \<rparr>
          | Some e \<Rightarrow> entryAction e)"
    unfolding route_unfold
    by (rule first_some_action) (rule devGet_table get_table post_table delete_table)+
  then show ?thesis
    by (simp only: firstMatch_def routingTable_def find_append_option act.simps)
qed

lemma switch_not_notFound:
  "switchDevGet k ps = Some a \<Longrightarrow> action a \<noteq> actResponseNotFound"
  "switchGet k ps q = Some a \<Longrightarrow> action a \<noteq> actResponseNotFound"
  "switchPost k ps pd = Some a \<Longrightarrow> action a \<noteq> actResponseNotFound"
  "switchDelete k ps = Some a \<Longrightarrow> action a \<noteq> actResponseNotFound"
  by (auto simp: switchDevGet_def switchGet_def switchPost_def switchDelete_def split: if_splits)

lemma route_notFound_args:
  assumes "action (route w req pd) = actResponseNotFound"
  shows "route w req pd = \<lparr> action = actResponseNotFound, args = JUndefined \<rparr>"
proof -
  have d: "action \<lparr> action = actResponseNotFound, args = JUndefined \<rparr> = actResponseNotFound"
    by simp
  show ?thesis
    unfolding route_unfold
    by (rule first_some_default)
      (use assms in \<open>simp_all only: d switch_not_notFound route_unfold not_False_eq_True\<close>)
qed

lemma respond_notFound:
  "respond registered w req \<lparr> action = actResponseNotFound, args = JUndefined \<rparr> =
     \<lparr> result = \<lparr> responseCode = 404, responseStatus = ''Not Found'', response = JObj [] \<rparr>,
       hasRolePermission = True, hasOwnershipPermission = True,
       calls = [HandlerExecution actResponseNotFound [JUndefined]] \<rparr>"
  by (simp add: respond_def databaseReady_def authorizationPipeline_def evaluatePermissions_def
      registered_notFound callAction_def argumentList_def firstArgument_def response_defs code_defs)

lemma table_actions: "\<forall>e\<in>set routingTable. entryAction e \<noteq> actResponseNotFound"
  by (simp add: routingTable_def devGetRoutes_def getRoutes_def postRoutes_def deleteRoutes_def
      entry_def)

lemma matched_route_found:
  assumes "matchesRoutingTable w req"
  shows "action (route w req pd) \<noteq> actResponseNotFound"
proof -
  from assms have "firstMatch w req \<noteq> None"
    by (auto simp: matchesRoutingTable_def firstMatch_def find_None_iff list_ex_iff)
  then obtain e where "firstMatch w req = Some e"
    by auto
  moreover from this have "e \<in> set routingTable"
    by (auto simp: firstMatch_def find_Some_iff)
  ultimately show ?thesis
    using table_actions by (simp add: route_action)
qed

lemma table_registered: "\<forall>e\<in>set routingTable. minRole (registered (entryAction e)) \<noteq> None"
  by (simp add: routingTable_def devGetRoutes_def getRoutes_def postRoutes_def deleteRoutes_def
      entry_def registry_defs)

lemma routed_actions_registered: "minRole (registered (action (route w req pd))) \<noteq> None"
proof (cases "firstMatch w req")
  case None
  then show ?thesis by (simp add: route_action registered_notFound)
next
  case (Some e)
  then have "e \<in> set routingTable"
    by (auto simp: firstMatch_def find_Some_iff)
  with Some table_registered show ?thesis
    by (simp add: route_action)
qed

lemma respond_pipeline:
  "databaseReady w a \<Longrightarrow> respond reg w req a = authorizationPipeline reg w req a"
  by (simp add: respond_def)

text \<open>
  Claim C9. A request that matches no entry of the routing table is resolved by the
  router to the not-found Action with no arguments, whatever the POST data; that
  Action is registered with \<open>minRole = EVERYONE\<close>; and what follows the routing answers
  with the envelope \<open>404\<close>, \<open>Not Found\<close> (the database checks are skipped for this
  Action). This is the response of the whole handler to a request that is not a
  POST, and to a POST whose data \<open>getPostData\<close> resolves.
\<close>

theorem unmatched_route_not_found:
  assumes "\<not> matchesRoutingTable w req"
  shows "route w req postData = \<lparr> action = actResponseNotFound, args = JUndefined \<rparr> \<and>
         minRole (registered actResponseNotFound) = Some Role_EVERYONE \<and>
         responseCode (responseNotFound msg) = 404 \<and>
         responseStatus (responseNotFound msg) = ''Not Found'' \<and>
         result (respond registered w req (route w req postData)) =
           \<lparr> responseCode = 404, responseStatus = ''Not Found'', response = JObj [] \<rparr> \<and>
         (reqMethod req \<noteq> ''POST'' \<or> (\<exists>d. getPostData w req = Resolved d) \<longrightarrow>
            map_option result (handleRequest registered w req) =
              Some \<lparr> responseCode = 404, responseStatus = ''Not Found'', response = JObj [] \<rparr>)"
proof -
  from assms have "firstMatch w req = None"
    by (simp add: matchesRoutingTable_def firstMatch_def find_None_iff list_ex_iff)
  then have r: "\<And>pd. route w req pd = \<lparr> action = actResponseNotFound, args = JUndefined \<rparr>"
    by (simp add: route_notFound_args route_action)
  have n: "responseCode (responseNotFound msg) = 404"
    "responseStatus (responseNotFound msg) = ''Not Found''"
    by (simp_all add: response_defs code_defs)
  show ?thesis
    by (auto simp: r n respond_notFound registered_notFound handleRequest_def)
qed

theorem unmatched_route_not_found_witness:
  "route exampleWorld nonexistentPath JUndefined =
     \<lparr> action = actResponseNotFound, args = JUndefined \<rparr> \<and>
   map_option result (handleRequest registered exampleWorld nonexistentPath) =
     Some \<lparr> responseCode = 404, responseStatus = ''Not Found'', response = JObj [] \<rparr>"
proof -
  have ps: "pathSegments nonexistentPath = [''nonexistent'', ''path'']"
    by (simp add: pathSegments_def nonexistentPath_def exampleRequest_def)
  have m: "reqMethod nonexistentPath = ''GET''"
    by (simp add: nonexistentPath_def exampleRequest_def)
  have h: "\<not> matchesRoutingTable exampleWorld nonexistentPath"
    by (simp add: matchesRoutingTable_def ps m routingTable_def devGetRoutes_def getRoutes_def
        postRoutes_def deleteRoutes_def table_simps segment_def)
  from unmatched_route_not_found [OF h, of JUndefined "JStr ''no such route''"] m
  show ?thesis by simp
qed

end
